theory Spec2Isabelle
  imports Complex_Main
begin

section \<open>The Sudoku solver of SudokuSolver.py\<close>

text \<open>
  The class \<open>Sudoku\<close> holds a grid (a list of rows, each a list of Python integers), a flag
  \<open>solved\<close> and two clock values. Its methods read and write the grid in place; the model
  passes the object explicitly and returns it updated. Every list access of the source that
  can leave the list raises \<open>IndexError\<close>; the model returns the error as a value.
  Row and column indices are produced by \<open>range\<close> and by floor division of such values only,
  so they are natural numbers; cell values and candidate digits are Python integers.
\<close>

subsection \<open>Data\<close>

type_synonym grid = "int list list"

datatype error =
    IndexError
  | InvalidGrid nat string
  | InvalidLiteral char
  | ZeroDivisionError

record sudoku =
  grid :: grid
  solved :: bool
  start :: real
  time :: real

text \<open>\<open>self.grid[i][j]\<close> as an expression.\<close>

definition cell :: "grid \<Rightarrow> nat \<Rightarrow> nat \<Rightarrow> error + int" where
  "cell g i j =
     (if i < length g then
        (if j < length (g ! i) then Inr (g ! i ! j) else Inl IndexError)
      else Inl IndexError)"

text \<open>\<open>self.grid[i][j] = v\<close>: the row object is fetched first, then written in place.\<close>

definition set_cell :: "grid \<Rightarrow> nat \<Rightarrow> nat \<Rightarrow> int \<Rightarrow> error + grid" where
  "set_cell g i j v =
     (if i < length g then
        (if j < length (g ! i) then Inr (g[i := (g ! i)[j := v]]) else Inl IndexError)
      else Inl IndexError)"

subsection \<open>check\<close>

text \<open>
  The first loop of \<open>check\<close>, over the remaining values \<open>i\<close> of \<open>range(9)\<close>. The names
  \<open>col\<close> and \<open>row\<close> are the local names of the source, which unpacks the position as
  \<open>col, row = position\<close>. The result \<open>Inr False\<close> is the early \<open>return False\<close>;
  \<open>Inr True\<close> means that the loop ran to its end. \<open>other_and_holds g a i x y digit\<close> is
  the test \<open>a != i and self.grid[x][y] == digit\<close>, whose right operand is evaluated only
  when the left one holds.
\<close>

definition other_and_holds :: "grid \<Rightarrow> nat \<Rightarrow> nat \<Rightarrow> nat \<Rightarrow> nat \<Rightarrow> int \<Rightarrow> error + bool" where
  "other_and_holds g a i x y digit =
     (if a \<noteq> i then
        (case cell g x y of Inl e \<Rightarrow> Inl e | Inr v \<Rightarrow> Inr (v = digit))
      else Inr False)"

fun check_lines :: "grid \<Rightarrow> int \<Rightarrow> nat \<Rightarrow> nat \<Rightarrow> nat list \<Rightarrow> error + bool" where
  "check_lines g digit col row [] = Inr True"
| "check_lines g digit col row (i # rest) =
     (case other_and_holds g col i i row digit of
        Inl e \<Rightarrow> Inl e
      | Inr True \<Rightarrow> Inr False
      | Inr False \<Rightarrow>
          (case other_and_holds g row i col i digit of
             Inl e \<Rightarrow> Inl e
           | Inr True \<Rightarrow> Inr False
           | Inr False \<Rightarrow> check_lines g digit col row rest))"

text \<open>The inner loop over \<open>j\<close> of the region scan, for one \<open>i\<close>.\<close>

fun check_region_inner :: "grid \<Rightarrow> int \<Rightarrow> nat \<times> nat \<Rightarrow> nat \<Rightarrow> nat list \<Rightarrow> error + bool" where
  "check_region_inner g digit position i [] = Inr True"
| "check_region_inner g digit position i (j # rest) =
     (case cell g i j of
        Inl e \<Rightarrow> Inl e
      | Inr v \<Rightarrow>
          if v = digit \<and> (i, j) \<noteq> position then Inr False
          else check_region_inner g digit position i rest)"

text \<open>The outer loop over \<open>i\<close> of the region scan; \<open>js\<close> is the range of the inner loop.\<close>

fun check_region :: "grid \<Rightarrow> int \<Rightarrow> nat \<times> nat \<Rightarrow> nat list \<Rightarrow> nat list \<Rightarrow> error + bool" where
  "check_region g digit position [] js = Inr True"
| "check_region g digit position (i # rest) js =
     (case check_region_inner g digit position i js of
        Inl e \<Rightarrow> Inl e
      | Inr False \<Rightarrow> Inr False
      | Inr True \<Rightarrow> check_region g digit position rest js)"

definition check :: "grid \<Rightarrow> int \<Rightarrow> nat \<times> nat \<Rightarrow> error + bool" where
  "check g digit position =
     (case position of (col, row) \<Rightarrow>
        let region_row = (row div 3) * 3;
            region_col = (col div 3) * 3
        in (case check_lines g digit col row [0..<9] of
              Inl e \<Rightarrow> Inl e
            | Inr False \<Rightarrow> Inr False
            | Inr True \<Rightarrow>
                check_region g digit position
                  [region_col..<region_col + 3] [region_row..<region_row + 3]))"

subsection \<open>find_empty_cell\<close>

fun find_in_row :: "grid \<Rightarrow> nat \<Rightarrow> nat list \<Rightarrow> error + (nat \<times> nat) option" where
  "find_in_row g i [] = Inr None"
| "find_in_row g i (j # rest) =
     (case cell g i j of
        Inl e \<Rightarrow> Inl e
      | Inr v \<Rightarrow> if v = 0 then Inr (Some (i, j)) else find_in_row g i rest)"

fun find_in_rows :: "grid \<Rightarrow> nat list \<Rightarrow> error + (nat \<times> nat) option" where
  "find_in_rows g [] = Inr None"
| "find_in_rows g (i # rest) =
     (case find_in_row g i [0..<9] of
        Inl e \<Rightarrow> Inl e
      | Inr (Some p) \<Rightarrow> Inr (Some p)
      | Inr None \<Rightarrow> find_in_rows g rest)"

definition find_empty_cell :: "grid \<Rightarrow> error + (nat \<times> nat) option" where
  "find_empty_cell g = find_in_rows g [0..<9]"

subsection \<open>recursive_solve and solve\<close>

text \<open>
  \<open>recursive_solve\<close> calls itself inside its loop, on the object it has just changed, and
  goes on with the object the call leaves behind. The model counts the nesting of calls:
  \<open>recursive_solve n\<close> may open \<open>n\<close> nested activations and is \<open>None\<close> when that does not
  suffice. \<open>solve_loop\<close> is the \<open>for\<close> loop over the remaining candidates.
  The parameter \<open>now\<close> is the value that \<open>perf_counter()\<close> returns in the base case; the
  clock is read there only, and at most once below one top-level call, because the
  result \<open>True\<close> is handed upwards without any further work.
\<close>

fun recursive_solve :: "nat \<Rightarrow> real \<Rightarrow> sudoku \<Rightarrow> (error + bool \<times> sudoku) option"
and solve_loop :: "nat \<Rightarrow> real \<Rightarrow> nat \<Rightarrow> nat \<Rightarrow> int list \<Rightarrow> sudoku \<Rightarrow> (error + bool \<times> sudoku) option"
where
  "recursive_solve 0 now s = None"
| "recursive_solve (Suc n) now s =
     (case find_empty_cell (grid s) of
        Inl e \<Rightarrow> Some (Inl e)
      | Inr None \<Rightarrow> Some (Inr (True, s\<lparr>time := now - start s\<rparr>))
      | Inr (Some (row, col)) \<Rightarrow> solve_loop n now row col [1, 2, 3, 4, 5, 6, 7, 8, 9] s)"
| "solve_loop n now row col [] s = Some (Inr (False, s))"
| "solve_loop n now row col (i # rest) s =
     (case check (grid s) i (row, col) of
        Inl e \<Rightarrow> Some (Inl e)
      | Inr False \<Rightarrow> solve_loop n now row col rest s
      | Inr True \<Rightarrow>
          (case set_cell (grid s) row col i of
             Inl e \<Rightarrow> Some (Inl e)
           | Inr g1 \<Rightarrow>
               (case recursive_solve n now (s\<lparr>grid := g1\<rparr>) of
                  None \<Rightarrow> None
                | Some (Inl e) \<Rightarrow> Some (Inl e)
                | Some (Inr (True, s1)) \<Rightarrow> Some (Inr (True, s1))
                | Some (Inr (False, s1)) \<Rightarrow>
                    (case set_cell (grid s1) row col 0 of
                       Inl e \<Rightarrow> Some (Inl e)
                     | Inr g2 \<Rightarrow> solve_loop n now row col rest (s1\<lparr>grid := g2\<rparr>)))))"

text \<open>
  \<open>time_taken\<close> is \<open>round(self.time * 1000, 2)\<close>. The clock values are floating-point
  numbers in the source and real numbers here; \<open>round_to_2\<close> rounds to two decimals, a tie
  going to the even neighbour.
\<close>

definition round_to_2 :: "real \<Rightarrow> real" where
  "round_to_2 x =
     (let y = x * 100; f = \<lfloor>y\<rfloor>; d = y - of_int f
      in (if d < 1 / 2 then of_int f
          else if 1 / 2 < d then of_int (f + 1)
          else if even f then of_int f else of_int (f + 1)) / 100)"

definition time_taken :: "sudoku \<Rightarrow> real" where
  "time_taken s = round_to_2 (time s * 1000)"

text \<open>
  \<open>solve\<close> reads the clock (\<open>t0\<close>), runs the search and prints one of two lines; the model
  returns the line together with the object, whose grid is the value the source returns.
\<close>

datatype report = Unsolvable | Solved real

definition solve :: "nat \<Rightarrow> real \<Rightarrow> real \<Rightarrow> sudoku \<Rightarrow> (error + report \<times> sudoku) option" where
  "solve n t0 now s =
     (case recursive_solve n now (s\<lparr>start := t0\<rparr>) of
        None \<Rightarrow> None
      | Some (Inl e) \<Rightarrow> Some (Inl e)
      | Some (Inr (ok, s1)) \<Rightarrow>
          Some (Inr (if \<not> ok then Unsolvable else Solved (time_taken s1), s1)))"

subsection \<open>load_grid and the constructor\<close>

text \<open>
  The file is given as the list of its lines, as iterating over the file object yields
  them. A character is its code point, below 256. \<open>isspace\<close> and \<open>isdigit_char\<close> are
  Python's \<open>str.isspace\<close> and \<open>str.isdigit\<close> on such a character: the superscripts
  one, two and three count as digits for \<open>isdigit\<close>, but \<open>int\<close> rejects them.
\<close>

definition isspace :: "char \<Rightarrow> bool" where
  "isspace ch = ((of_char ch :: nat) \<in> {9, 10, 11, 12, 13, 28, 29, 30, 31, 32, 133, 160})"

definition strip :: "string \<Rightarrow> string" where
  "strip l = rev (dropWhile isspace (rev (dropWhile isspace l)))"

definition isdigit_char :: "char \<Rightarrow> bool" where
  "isdigit_char ch =
     ((48 \<le> (of_char ch :: nat) \<and> (of_char ch :: nat) \<le> 57) \<or> (of_char ch :: nat) \<in> {178, 179, 185})"

definition isdigit :: "string \<Rightarrow> bool" where
  "isdigit l = (l \<noteq> [] \<and> list_all isdigit_char l)"

text \<open>\<open>int(x)\<close> for a string \<open>x\<close> of one character that has passed \<open>isdigit\<close>.\<close>

definition int_of_char :: "char \<Rightarrow> error + int" where
  "int_of_char ch =
     (if 48 \<le> (of_char ch :: nat) \<and> (of_char ch :: nat) \<le> 57
      then Inr (int (of_char ch) - 48) else Inl (InvalidLiteral ch))"

text \<open>The list comprehension \<open>[int(x) for x in list(i)]\<close>.\<close>

fun numbers_of :: "string \<Rightarrow> error + int list" where
  "numbers_of [] = Inr []"
| "numbers_of (x # xs) =
     (case int_of_char x of
        Inl e \<Rightarrow> Inl e
      | Inr v \<Rightarrow> (case numbers_of xs of Inl e \<Rightarrow> Inl e | Inr vs \<Rightarrow> Inr (v # vs)))"

text \<open>\<open>data.index(i)\<close>, for an \<open>i\<close> taken from \<open>data\<close>.\<close>

fun index :: "'a list \<Rightarrow> 'a \<Rightarrow> nat" where
  "index [] x = 0"
| "index (y # ys) x = (if y = x then 0 else Suc (index ys x))"

text \<open>The loop of \<open>load_grid\<close> over the remaining lines of \<open>data\<close>; \<open>acc\<close> is \<open>grid\<close>.\<close>

fun load_rows :: "string list \<Rightarrow> string list \<Rightarrow> grid \<Rightarrow> error + grid" where
  "load_rows data [] acc = Inr acc"
| "load_rows data (i # rest) acc =
     (if length i \<noteq> 9 \<or> \<not> isdigit i then Inl (InvalidGrid (index data i) i)
      else
        (case numbers_of i of
           Inl e \<Rightarrow> Inl e
         | Inr numbers \<Rightarrow> load_rows data rest (acc @ [numbers])))"

definition load_grid :: "string list \<Rightarrow> error + grid" where
  "load_grid file_lines =
     (let data = filter (\<lambda>l. l \<noteq> []) (map strip file_lines)
      in load_rows data data [])"

definition init :: "string list \<Rightarrow> error + sudoku" where
  "init file_lines =
     (case load_grid file_lines of
        Inl e \<Rightarrow> Inl e
      | Inr g \<Rightarrow> Inr \<lparr>grid = g, solved = False, start = 0, time = 0\<rparr>)"

subsection \<open>test_solver\<close>

text \<open>
  The batch harness. A file is its lines together with the two clock values that its
  solve reads. The loop appends \<open>time_taken()\<close> of every solver to the list \<open>times\<close> (here \<open>ts\<close>), whatever its solve
  printed; the average divides by the number of files.
\<close>

fun test_loop :: "nat \<Rightarrow> (string list \<times> real \<times> real) list \<Rightarrow> real list \<Rightarrow> (error + real list) option" where
  "test_loop n [] ts = Some (Inr ts)"
| "test_loop n ((file_lines, t0, now) # rest) ts =
     (case init file_lines of
        Inl e \<Rightarrow> Some (Inl e)
      | Inr solver \<Rightarrow>
          (case solve n t0 now solver of
             None \<Rightarrow> None
           | Some (Inl e) \<Rightarrow> Some (Inl e)
           | Some (Inr (line, solver1)) \<Rightarrow> test_loop n rest (ts @ [time_taken solver1])))"

definition test_solver :: "nat \<Rightarrow> (string list \<times> real \<times> real) list \<Rightarrow> (error + real) option" where
  "test_solver n files =
     (case test_loop n files [] of
        None \<Rightarrow> None
      | Some (Inl e) \<Rightarrow> Some (Inl e)
      | Some (Inr ts) \<Rightarrow>
          if length ts = 0 then Some (Inl ZeroDivisionError)
          else Some (Inr (round_to_2 (sum_list ts / real (length ts)))))"

section \<open>Notions used to state the properties\<close>

text \<open>A 9x9 grid: nine rows of nine cells each.\<close>

definition wf_grid :: "grid \<Rightarrow> bool" where
  "wf_grid g = (length g = 9 \<and> list_all (\<lambda>r. length r = 9) g)"

text \<open>
  No cell of row \<open>r\<close>, of column \<open>c\<close> or of the 3x3 region with origin
  \<open>(3 * (r div 3), 3 * (c div 3))\<close>, other than \<open>(r, c)\<close> itself, holds the value \<open>d\<close>.
\<close>

definition no_conflict :: "grid \<Rightarrow> int \<Rightarrow> nat \<Rightarrow> nat \<Rightarrow> bool" where
  "no_conflict g d r c =
     ((\<forall>c' \<in> {0..<9}. c' \<noteq> c \<longrightarrow> g ! r ! c' \<noteq> d) \<and>
      (\<forall>r' \<in> {0..<9}. r' \<noteq> r \<longrightarrow> g ! r' ! c \<noteq> d) \<and>
      (\<forall>r' \<in> {3 * (r div 3)..<3 * (r div 3) + 3}.
         \<forall>c' \<in> {3 * (c div 3)..<3 * (c div 3) + 3}.
           (r', c') \<noteq> (r, c) \<longrightarrow> g ! r' ! c' \<noteq> d))"

text \<open>The number of empty cells.\<close>

definition count_zeros :: "grid \<Rightarrow> nat" where
  "count_zeros g = length (filter (\<lambda>v. v = 0) (concat g))"

text \<open>The nine values of a row, of a column and of a region (regions numbered row-major).\<close>

definition row_values :: "grid \<Rightarrow> nat \<Rightarrow> int list" where
  "row_values g r = map (\<lambda>c. g ! r ! c) [0..<9]"

definition column_values :: "grid \<Rightarrow> nat \<Rightarrow> int list" where
  "column_values g c = map (\<lambda>r. g ! r ! c) [0..<9]"

definition region_values :: "grid \<Rightarrow> nat \<Rightarrow> int list" where
  "region_values g k =
     map (\<lambda>p. g ! (3 * (k div 3) + p div 3) ! (3 * (k mod 3) + p mod 3)) [0..<9]"

text \<open>Nine values that are exactly the set 1..9, without a repeat.\<close>

definition exactly_1_to_9 :: "int list \<Rightarrow> bool" where
  "exactly_1_to_9 vs = (distinct vs \<and> set vs = {1..9})"

definition valid_grid :: "grid \<Rightarrow> bool" where
  "valid_grid g =
     (\<forall>k \<in> {0..<9}.
        exactly_1_to_9 (row_values g k) \<and>
        exactly_1_to_9 (column_values g k) \<and>
        exactly_1_to_9 (region_values g k))"

text \<open>Every cell that is not empty in \<open>g\<close> has the same value in \<open>g'\<close>.\<close>

definition keeps_givens :: "grid \<Rightarrow> grid \<Rightarrow> bool" where
  "keeps_givens g g' =
     (length g' = length g \<and>
      (\<forall>r < length g. length (g' ! r) = length (g ! r) \<and>
         (\<forall>c < length (g ! r). g ! r ! c \<noteq> 0 \<longrightarrow> g' ! r ! c = g ! r ! c)))"

text \<open>
  \<open>g'\<close> is a completion of \<open>g\<close>: a 9x9 grid that satisfies all row, column and region
  constraints and preserves the non-empty cells of \<open>g\<close>.
\<close>

definition completion :: "grid \<Rightarrow> grid \<Rightarrow> bool" where
  "completion g g' = (wf_grid g' \<and> valid_grid g' \<and> keeps_givens g g')"

text \<open>
  \<open>g'\<close> is a filling of \<open>g\<close>: it preserves the non-empty cells of \<open>g\<close>, and every cell
  that is empty in \<open>g\<close> holds a digit 1..9 in \<open>g'\<close> that no other cell of its row, column
  and region holds. Nothing is asked of two non-empty cells of \<open>g\<close> against each other.
\<close>

definition filling :: "grid \<Rightarrow> grid \<Rightarrow> bool" where
  "filling g g' =
     (wf_grid g' \<and> keeps_givens g g' \<and>
      (\<forall>r \<in> {0..<9}. \<forall>c \<in> {0..<9}.
         g ! r ! c = 0 \<longrightarrow> 1 \<le> g' ! r ! c \<and> g' ! r ! c \<le> 9 \<and> no_conflict g' (g' ! r ! c) r c))"

text \<open>
  The non-empty cells of \<open>g\<close> do not contradict each other: each holds a digit 1..9 that
  no other cell of its row, column and region holds.
\<close>

definition consistent :: "grid \<Rightarrow> bool" where
  "consistent g =
     (\<forall>r \<in> {0..<9}. \<forall>c \<in> {0..<9}.
        g ! r ! c \<noteq> 0 \<longrightarrow> 1 \<le> g ! r ! c \<and> g ! r ! c \<le> 9 \<and> no_conflict g (g ! r ! c) r c)"

text \<open>Row \<open>r\<close> holds the same non-zero digit in two different columns.\<close>

definition row_contradiction :: "grid \<Rightarrow> bool" where
  "row_contradiction g =
     (\<exists>r \<in> {0..<9}. \<exists>c \<in> {0..<9}. \<exists>c' \<in> {0..<9}.
        c \<noteq> c' \<and> g ! r ! c \<noteq> 0 \<and> g ! r ! c = g ! r ! c')"

text \<open>Lines with an offending content, for \<open>load_grid\<close>.\<close>

definition bad_line :: "string \<Rightarrow> bool" where
  "bad_line l = (length l \<noteq> 9 \<or> \<not> list_all (\<lambda>ch. 48 \<le> (of_char ch :: nat) \<and> (of_char ch :: nat) \<le> 57) l)"

text \<open>A new object with the given grid, as the constructor leaves it.\<close>

definition fresh :: "grid \<Rightarrow> sudoku" where
  "fresh g = \<lparr>grid = g, solved = False, start = 0, time = 0\<rparr>"

text \<open>
  What a returning call of \<open>recursive_solve\<close> leaves behind: after \<open>False\<close> the object it
  was given; after \<open>True\<close> an object without an empty cell that keeps the non-empty cells,
  with the elapsed time stored and the other fields as they were.
\<close>

definition outcome :: "real \<Rightarrow> sudoku \<Rightarrow> bool \<Rightarrow> sudoku \<Rightarrow> bool" where
  "outcome now s b s' =
     (if b then find_empty_cell (grid s') = Inr None \<and> keeps_givens (grid s) (grid s') \<and>
                s' = s\<lparr>grid := grid s', time := now - start s\<rparr>
      else s' = s)"

subsection \<open>Example grids\<close>

definition solved_grid :: grid where
  "solved_grid =
     [[5, 3, 4, 6, 7, 8, 9, 1, 2],
      [6, 7, 2, 1, 9, 5, 3, 4, 8],
      [1, 9, 8, 3, 4, 2, 5, 6, 7],
      [8, 5, 9, 7, 6, 1, 4, 2, 3],
      [4, 2, 6, 8, 5, 3, 7, 9, 1],
      [7, 1, 3, 9, 2, 4, 8, 5, 6],
      [9, 6, 1, 5, 3, 7, 2, 8, 4],
      [2, 8, 7, 4, 1, 9, 6, 3, 5],
      [3, 4, 5, 2, 8, 6, 1, 7, 9]]"

text \<open>The solved grid with three cells emptied.\<close>

definition puzzle_grid :: grid where
  "puzzle_grid =
     [[0, 3, 4, 6, 7, 8, 9, 1, 2],
      [6, 7, 2, 1, 9, 5, 3, 4, 8],
      [1, 9, 8, 3, 4, 2, 5, 6, 7],
      [8, 5, 9, 7, 6, 1, 4, 2, 3],
      [4, 2, 6, 8, 0, 3, 7, 9, 1],
      [7, 1, 3, 9, 2, 4, 8, 5, 6],
      [9, 6, 1, 5, 3, 7, 2, 8, 4],
      [2, 8, 7, 4, 1, 9, 6, 3, 5],
      [3, 4, 5, 2, 8, 6, 1, 7, 0]]"

text \<open>The first cell is empty and no digit fits: 5 is in its region, all others in its row.\<close>

definition stuck_grid :: grid where
  "stuck_grid =
     [[0, 3, 4, 6, 7, 8, 9, 1, 2],
      [6, 5, 2, 1, 9, 5, 3, 4, 8],
      [1, 9, 8, 3, 4, 2, 5, 6, 7],
      [8, 5, 9, 7, 6, 1, 4, 2, 3],
      [4, 2, 6, 8, 5, 3, 7, 9, 1],
      [7, 1, 3, 9, 2, 4, 8, 5, 6],
      [9, 6, 1, 5, 3, 7, 2, 8, 4],
      [2, 8, 7, 4, 1, 9, 6, 3, 5],
      [3, 4, 5, 2, 8, 6, 1, 7, 9]]"

text \<open>A full grid with two 5s in column 0 (and in the first region).\<close>

definition clash_grid :: grid where
  "clash_grid =
     [[5, 3, 4, 6, 7, 8, 9, 1, 2],
      [5, 7, 2, 1, 9, 5, 3, 4, 8],
      [1, 9, 8, 3, 4, 2, 5, 6, 7],
      [8, 5, 9, 7, 6, 1, 4, 2, 3],
      [4, 2, 6, 8, 5, 3, 7, 9, 1],
      [7, 1, 3, 9, 2, 4, 8, 5, 6],
      [9, 6, 1, 5, 3, 7, 2, 8, 4],
      [2, 8, 7, 4, 1, 9, 6, 3, 5],
      [3, 4, 5, 2, 8, 6, 1, 7, 9]]"

text \<open>Row 0 holds two 4s; its first cell is empty.\<close>

definition twin_grid :: grid where
  "twin_grid =
     [[0, 4, 4, 6, 7, 8, 9, 1, 2],
      [6, 7, 2, 1, 9, 5, 3, 4, 8],
      [1, 9, 8, 3, 4, 2, 5, 6, 7],
      [8, 5, 9, 7, 6, 1, 4, 2, 3],
      [4, 2, 6, 8, 5, 3, 7, 9, 1],
      [7, 1, 3, 9, 2, 4, 8, 5, 6],
      [9, 6, 1, 5, 3, 7, 2, 8, 4],
      [2, 8, 7, 4, 1, 9, 6, 3, 5],
      [3, 4, 5, 2, 8, 6, 1, 7, 9]]"

text \<open>Row 0 is 119000000 and all other rows are empty.\<close>

definition grid_119 :: grid where
  "grid_119 =
     [[1, 1, 9, 0, 0, 0, 0, 0, 0],
      [0, 0, 0, 0, 0, 0, 0, 0, 0],
      [0, 0, 0, 0, 0, 0, 0, 0, 0],
      [0, 0, 0, 0, 0, 0, 0, 0, 0],
      [0, 0, 0, 0, 0, 0, 0, 0, 0],
      [0, 0, 0, 0, 0, 0, 0, 0, 0],
      [0, 0, 0, 0, 0, 0, 0, 0, 0],
      [0, 0, 0, 0, 0, 0, 0, 0, 0],
      [0, 0, 0, 0, 0, 0, 0, 0, 0]]"

text \<open>
  The search fills the first cell with 5, finds no digit for the second cell (3 is the
  only digit missing in row 0 and is in column 1), takes the 5 back and fails.
\<close>

definition backtrack_grid :: grid where
  "backtrack_grid =
     [[0, 0, 4, 6, 7, 8, 9, 1, 2],
      [6, 7, 2, 1, 9, 5, 3, 4, 8],
      [1, 9, 8, 3, 4, 2, 5, 6, 7],
      [8, 5, 9, 7, 6, 1, 4, 2, 3],
      [4, 2, 6, 8, 5, 3, 7, 9, 1],
      [7, 1, 3, 9, 2, 4, 8, 5, 6],
      [9, 6, 1, 5, 3, 7, 2, 8, 4],
      [2, 8, 7, 4, 1, 9, 6, 3, 5],
      [3, 3, 5, 2, 8, 6, 1, 7, 9]]"

definition backtrack_grid_5 :: grid where
  "backtrack_grid_5 =
     [[5, 0, 4, 6, 7, 8, 9, 1, 2],
      [6, 7, 2, 1, 9, 5, 3, 4, 8],
      [1, 9, 8, 3, 4, 2, 5, 6, 7],
      [8, 5, 9, 7, 6, 1, 4, 2, 3],
      [4, 2, 6, 8, 5, 3, 7, 9, 1],
      [7, 1, 3, 9, 2, 4, 8, 5, 6],
      [9, 6, 1, 5, 3, 7, 2, 8, 4],
      [2, 8, 7, 4, 1, 9, 6, 3, 5],
      [3, 3, 5, 2, 8, 6, 1, 7, 9]]"

section \<open>Auxiliary facts\<close>

subsection \<open>Cells\<close>

lemma cell_Inr_iff: "cell g i j = Inr v \<longleftrightarrow> i < length g \<and> j < length (g ! i) \<and> g ! i ! j = v"
  by (auto simp: cell_def)

lemma set_cell_in_range:
  "i < length g \<Longrightarrow> j < length (g ! i) \<Longrightarrow> set_cell g i j v = Inr (g[i := (g ! i)[j := v]])"
  by (simp add: set_cell_def)

lemma put_back:
  "i < length g \<Longrightarrow> j < length (g ! i) \<Longrightarrow> g ! i ! j = 0 \<Longrightarrow>
   set_cell (g[i := (g ! i)[j := v]]) i j 0 = Inr g"
proof -
  assume a: "i < length g" "j < length (g ! i)" "g ! i ! j = 0"
  then have "(g ! i)[j := 0] = g ! i" by (simp add: list_update_same_conv)
  with a show ?thesis by (simp add: set_cell_def)
qed

lemma wf_grid_row: "wf_grid g \<Longrightarrow> i < 9 \<Longrightarrow> length (g ! i) = 9"
  by (simp add: wf_grid_def list_all_length)

lemma cell_wf: "wf_grid g \<Longrightarrow> i < 9 \<Longrightarrow> j < 9 \<Longrightarrow> cell g i j = Inr (g ! i ! j)"
  by (simp add: cell_def wf_grid_row) (simp add: wf_grid_def)

subsection \<open>The loops of check on a 9x9 grid\<close>

lemma check_lines_wf:
  "wf_grid g \<Longrightarrow> col < 9 \<Longrightarrow> row < 9 \<Longrightarrow> \<forall>i \<in> set is. i < 9 \<Longrightarrow>
   check_lines g digit col row is =
     Inr (\<forall>i \<in> set is. (col \<noteq> i \<longrightarrow> g ! i ! row \<noteq> digit) \<and> (row \<noteq> i \<longrightarrow> g ! col ! i \<noteq> digit))"
  by (induction "is") (auto simp: other_and_holds_def cell_wf split: bool.splits)

lemma check_region_inner_wf:
  "wf_grid g \<Longrightarrow> i < 9 \<Longrightarrow> \<forall>j \<in> set js. j < 9 \<Longrightarrow>
   check_region_inner g digit position i js =
     Inr (\<forall>j \<in> set js. (i, j) \<noteq> position \<longrightarrow> g ! i ! j \<noteq> digit)"
  by (induction js) (auto simp: cell_wf)

lemma check_region_wf:
  "wf_grid g \<Longrightarrow> \<forall>i \<in> set is. i < 9 \<Longrightarrow> \<forall>j \<in> set js. j < 9 \<Longrightarrow>
   check_region g digit position is js =
     Inr (\<forall>i \<in> set is. \<forall>j \<in> set js. (i, j) \<noteq> position \<longrightarrow> g ! i ! j \<noteq> digit)"
  by (induction "is") (auto simp: check_region_inner_wf split: bool.splits)

lemma region_bound: "(r::nat) < 9 \<Longrightarrow> i < r div 3 * 3 + 3 \<Longrightarrow> i < 9"
  by arith

lemma check_wf:
  "wf_grid g \<Longrightarrow> r < 9 \<Longrightarrow> c < 9 \<Longrightarrow> check g d (r, c) = Inr (no_conflict g d r c)"
  unfolding check_def Let_def prod.case
  apply (subst check_lines_wf, simp_all)
  apply (subst check_region_wf)
    apply (auto simp: no_conflict_def mult.commute dest: region_bound split: bool.splits)
  done

subsection \<open>The cell that find_empty_cell returns\<close>

lemma find_in_row_Some:
  "find_in_row g i js = Inr (Some p) \<Longrightarrow> \<exists>j \<in> set js. p = (i, j) \<and> cell g i j = Inr 0"
  by (induction js) (auto split: sum.splits if_splits)

lemma find_in_rows_Some:
  "find_in_rows g is = Inr (Some p) \<Longrightarrow> \<exists>i \<in> set is. \<exists>j < 9. p = (i, j) \<and> cell g i j = Inr 0"
proof (induction "is")
  case Nil
  then show ?case by simp
next
  case (Cons i rest)
  show ?case
  proof (cases "find_in_row g i [0..<9]")
    case (Inl e)
    with Cons.prems show ?thesis by simp
  next
    case (Inr found)
    show ?thesis
    proof (cases found)
      case None
      with Inr Cons show ?thesis by simp
    next
      case (Some q)
      with Inr Cons.prems have "q = p" by simp
      with Inr Some find_in_row_Some[of g i "[0..<9]" p] show ?thesis by auto
    qed
  qed
qed

lemma find_empty_cell_Some:
  "find_empty_cell g = Inr (Some (r, c)) \<Longrightarrow> r < 9 \<and> c < 9 \<and> cell g r c = Inr 0"
  using find_in_rows_Some[of g "[0..<9]" "(r, c)"] by (auto simp: find_empty_cell_def)

subsection \<open>Non-empty cells are kept\<close>

lemma keeps_givens_refl: "keeps_givens g g"
  by (simp add: keeps_givens_def)

lemma keeps_givens_trans: "keeps_givens g g1 \<Longrightarrow> keeps_givens g1 g2 \<Longrightarrow> keeps_givens g g2"
  unfolding keeps_givens_def by (metis (no_types, lifting))

lemma keeps_givens_put:
  "i < length g \<Longrightarrow> j < length (g ! i) \<Longrightarrow> g ! i ! j = 0 \<Longrightarrow> keeps_givens g (g[i := (g ! i)[j := v]])"
  by (auto simp: keeps_givens_def nth_list_update)

subsection \<open>What a returning search leaves behind\<close>

lemma outcome_loop:
  assumes IH: "\<And>now s b s'. recursive_solve n now s = Some (Inr (b, s')) \<Longrightarrow> outcome now s b s'"
  shows "cell (grid s) row col = Inr 0 \<Longrightarrow>
         solve_loop n now row col is s = Some (Inr (b, s')) \<Longrightarrow> outcome now s b s'"
proof (induction "is" arbitrary: s)
  case Nil
  then show ?case by (simp add: outcome_def)
next
  case (Cons i rest)
  from Cons.prems(1) have rng: "row < length (grid s)" "col < length (grid s ! row)"
    and zero: "grid s ! row ! col = 0"
    by (simp_all add: cell_Inr_iff)
  let ?g1 = "(grid s)[row := (grid s ! row)[col := i]]"
  have put: "set_cell (grid s) row col i = Inr ?g1"
    using rng by (rule set_cell_in_range)
  show ?case
  proof (cases "check (grid s) i (row, col)")
    case (Inl e)
    with Cons.prems(2) show ?thesis by simp
  next
    case (Inr ok)
    show ?thesis
    proof (cases ok)
      case False
      with Inr Cons.prems have "solve_loop n now row col rest s = Some (Inr (b, s'))" by simp
      with Cons.IH Cons.prems(1) show ?thesis by blast
    next
      case True
      with Inr have chk: "check (grid s) i (row, col) = Inr True" by simp
      show ?thesis
      proof (cases "recursive_solve n now (s\<lparr>grid := ?g1\<rparr>)")
        case None
        with chk put Cons.prems(2) show ?thesis by simp
      next
        case (Some res)
        show ?thesis
        proof (cases res)
          case (Inl e)
          with Some chk put Cons.prems(2) show ?thesis by simp
        next
          case (Inr pair)
          obtain b1 s1 where pair: "pair = (b1, s1)" by (cases pair)
          from Some Inr pair have rec: "recursive_solve n now (s\<lparr>grid := ?g1\<rparr>) = Some (Inr (b1, s1))"
            by simp
          from IH[OF rec] have out1: "outcome now (s\<lparr>grid := ?g1\<rparr>) b1 s1" .
          show ?thesis
          proof (cases b1)
            case True
            with rec chk put Cons.prems(2) have "b = True" "s' = s1" by simp_all
            moreover from out1 True keeps_givens_put[OF rng zero, of i]
            have "outcome now s True s1"
              by (auto simp: outcome_def intro: keeps_givens_trans)
            ultimately show ?thesis by simp
          next
            case False
            with out1 have s1: "s1 = s\<lparr>grid := ?g1\<rparr>" by (simp add: outcome_def)
            have undo: "set_cell (grid s1) row col 0 = Inr (grid s)"
              using put_back[OF rng zero, of i] by (simp add: s1)
            have "s1\<lparr>grid := grid s\<rparr> = s" by (simp add: s1)
            with rec False chk put undo Cons.prems(2)
            have "solve_loop n now row col rest s = Some (Inr (b, s'))" by simp
            with Cons.IH Cons.prems(1) show ?thesis by blast
          qed
        qed
      qed
    qed
  qed
qed

lemma outcome_recursive_solve:
  "recursive_solve n now s = Some (Inr (b, s')) \<Longrightarrow> outcome now s b s'"
proof (induction n arbitrary: now s b s')
  case 0
  then show ?case by simp
next
  case (Suc n)
  show ?case
  proof (cases "find_empty_cell (grid s)")
    case (Inl e)
    with Suc.prems show ?thesis by simp
  next
    case (Inr found)
    show ?thesis
    proof (cases found)
      case None
      with Inr Suc.prems show ?thesis by (auto simp: outcome_def keeps_givens_refl)
    next
      case (Some p)
      obtain row col where p: "p = (row, col)" by (cases p)
      from Inr Some p have fe: "find_empty_cell (grid s) = Inr (Some (row, col))" by simp
      from find_empty_cell_Some[OF fe] have z: "cell (grid s) row col = Inr 0" by simp
      from fe Suc.prems have "solve_loop n now row col [1, 2, 3, 4, 5, 6, 7, 8, 9] s = Some (Inr (b, s'))"
        by simp
      from outcome_loop[OF Suc.IH z this] show ?thesis by simp
    qed
  qed
qed

lemma solve_Unsolvable:
  "solve n t0 now s = Some (Inr (Unsolvable, s')) \<longleftrightarrow>
   recursive_solve n now (s\<lparr>start := t0\<rparr>) = Some (Inr (False, s'))"
  by (auto simp: solve_def split: option.splits sum.splits if_splits)

subsection \<open>Evaluating the examples\<close>

lemmas eval_defs = check_def other_and_holds_def cell_def set_cell_def find_empty_cell_def upt_rec

lemmas eval_spec = no_conflict_def atLeastLessThan_upt upt_rec

lemma wf_examples:
  "wf_grid solved_grid" "wf_grid puzzle_grid" "wf_grid stuck_grid" "wf_grid clash_grid"
  "wf_grid twin_grid" "wf_grid grid_119" "wf_grid backtrack_grid"
  by (simp_all add: wf_grid_def solved_grid_def puzzle_grid_def stuck_grid_def clash_grid_def
      twin_grid_def grid_119_def backtrack_grid_def)

lemma backtrack_find: "find_empty_cell backtrack_grid = Inr (Some (0, 0))"
  by (simp add: eval_defs backtrack_grid_def)

lemma backtrack_check:
  "\<forall>i \<in> set [1, 2, 3, 4, 6, 7, 8, 9]. check backtrack_grid i (0, 0) = Inr False"
  "check backtrack_grid 5 (0, 0) = Inr True"
  by (simp_all add: eval_defs backtrack_grid_def)

lemma backtrack_put: "set_cell backtrack_grid 0 0 5 = Inr backtrack_grid_5"
  by (simp add: eval_defs backtrack_grid_def backtrack_grid_5_def)

lemma backtrack_5_find: "find_empty_cell backtrack_grid_5 = Inr (Some (0, 1))"
  by (simp add: eval_defs backtrack_grid_5_def)

lemma backtrack_5_check:
  "\<forall>i \<in> set [1, 2, 3, 4, 5, 6, 7, 8, 9]. check backtrack_grid_5 i (0, 1) = Inr False"
  by (simp add: eval_defs backtrack_grid_5_def)

lemma backtrack_5_undo: "set_cell backtrack_grid_5 0 0 0 = Inr backtrack_grid"
  by (simp add: eval_defs backtrack_grid_def backtrack_grid_5_def)

lemma backtrack_5_fails:
  "recursive_solve (Suc 0) now (s\<lparr>grid := backtrack_grid_5\<rparr>) = Some (Inr (False, s\<lparr>grid := backtrack_grid_5\<rparr>))"
  using backtrack_5_check by (simp add: backtrack_5_find)

lemma backtrack_fails:
  "grid s = backtrack_grid \<Longrightarrow> recursive_solve (Suc (Suc 0)) now s = Some (Inr (False, s))"
  using backtrack_check
  apply (subst recursive_solve.simps)
  apply (simp add: backtrack_find backtrack_put backtrack_5_fails backtrack_5_undo
      del: recursive_solve.simps)
  done

section \<open>The claims\<close>

text \<open>
  C2. On every 9x9 grid, for every position \<open>(r, c)\<close> with \<open>r, c\<close> in 0..8 and every digit
  \<open>d\<close>, \<open>check(d, (r, c))\<close> returns without an error, and it returns true if and only if no
  cell of row \<open>r\<close>, of column \<open>c\<close> and of the 3x3 region with origin
  \<open>(3 * (r div 3), 3 * (c div 3))\<close>, other than \<open>(r, c)\<close> itself, holds \<open>d\<close>. This holds
  for all cell values and all digits, in particular for cell values 0..9 and digits 1..9.
\<close>

theorem check_correct:
  "wf_grid g \<Longrightarrow> r < 9 \<Longrightarrow> c < 9 \<Longrightarrow> check g d (r, c) = Inr (no_conflict g d r c)"
  by (rule check_wf)

theorem check_correct_witness:
  "wf_grid puzzle_grid \<and> (4::nat) < 9 \<and>
   check puzzle_grid 5 (4, 4) = Inr True \<and> no_conflict puzzle_grid 5 4 4 \<and>
   check puzzle_grid 3 (4, 4) = Inr False \<and> \<not> no_conflict puzzle_grid 3 4 4"
proof -
  have wf: "wf_grid puzzle_grid" by (simp add: wf_grid_def puzzle_grid_def)
  have n5: "no_conflict puzzle_grid 5 4 4" by (simp add: eval_spec puzzle_grid_def)
  have n3: "\<not> no_conflict puzzle_grid 3 4 4" by (simp add: eval_spec puzzle_grid_def)
  from check_correct[OF wf, of 4 4 5] check_correct[OF wf, of 4 4 3] wf n5 n3
  show ?thesis by simp
qed

text \<open>
  C5. If \<open>recursive_solve\<close> returns false, the object is identical to the one it was called
  on: every tentative placement has been taken back. So a top-level \<open>solve\<close> that reports
  the grid unsolvable leaves the grid equal to the input. This holds for every grid, in
  particular for every 9x9 grid.
\<close>

theorem failure_restores:
  "(recursive_solve n now s = Some (Inr (False, s')) \<longrightarrow> s' = s) \<and>
   (solve n t0 now s = Some (Inr (Unsolvable, s'')) \<longrightarrow> grid s'' = grid s)"
proof (intro conjI impI)
  assume "recursive_solve n now s = Some (Inr (False, s'))"
  from outcome_recursive_solve[OF this] show "s' = s" by (simp add: outcome_def)
next
  assume "solve n t0 now s = Some (Inr (Unsolvable, s''))"
  then have "recursive_solve n now (s\<lparr>start := t0\<rparr>) = Some (Inr (False, s''))"
    by (simp add: solve_Unsolvable)
  from outcome_recursive_solve[OF this] show "grid s'' = grid s" by (simp add: outcome_def)
qed

theorem failure_restores_witness:
  "recursive_solve (Suc (Suc 0)) 7 (fresh backtrack_grid) = Some (Inr (False, fresh backtrack_grid)) \<and>
   solve (Suc (Suc 0)) 2 7 (fresh backtrack_grid) =
     Some (Inr (Unsolvable, (fresh backtrack_grid)\<lparr>start := 2\<rparr>)) \<and>
   grid ((fresh backtrack_grid)\<lparr>start := 2\<rparr>) = grid (fresh backtrack_grid)"
proof -
  have r: "recursive_solve (Suc (Suc 0)) 7 (fresh backtrack_grid) = Some (Inr (False, fresh backtrack_grid))"
    by (rule backtrack_fails) (simp add: fresh_def)
  have "recursive_solve (Suc (Suc 0)) 7 ((fresh backtrack_grid)\<lparr>start := 2\<rparr>) =
          Some (Inr (False, (fresh backtrack_grid)\<lparr>start := 2\<rparr>))"
    by (rule backtrack_fails) (simp add: fresh_def)
  then have s: "solve (Suc (Suc 0)) 2 7 (fresh backtrack_grid) =
      Some (Inr (Unsolvable, (fresh backtrack_grid)\<lparr>start := 2\<rparr>))"
    by (simp add: solve_Unsolvable)
  from failure_restores[of "Suc (Suc 0)" 7 "fresh backtrack_grid" "fresh backtrack_grid" 2
      "(fresh backtrack_grid)\<lparr>start := 2\<rparr>"] r s
  show ?thesis by simp
qed

end
